theory Spec2Isabelle
  imports Main "HOL-Library.AList"
begin

section \<open>The router of \<open>router.go\<close>: data model\<close>

text \<open>
  Go strings are byte sequences: \<open>string\<close> (a list of 8-bit characters). Pointers to
  nodes are indices into an arena \<open>nodes\<close> (a list that only grows: \<open>&node{...}\<close>
  appends and yields the old length); \<open>nil\<close> is \<open>None\<close>. A Go slice that is compared
  with \<open>nil\<close> in the source (\<open>staticChildren\<close>) is a \<open>list option\<close>, so that the nil slice
  and the empty non-nil slice stay apart. A run-time panic is a value of type \<open>panic\<close>.
\<close>

datatype panic = NilDereference | IndexOutOfRange | SliceBoundsOutOfRange

text \<open>
  \<open>HandlerFunc\<close> is opaque to the router. The two stock handlers of the source are
  constructors of their own; every other handler is identified by a number.
\<close>

datatype HandlerFunc = notFoundHandler | methodNotAllowedHandler | UserHandler nat

type_synonym MiddlewareFunc = "HandlerFunc \<Rightarrow> HandlerFunc"

datatype RouteMatchType =
  RouteMatchUnknown | RouteMatchNotFound | RouteMatchMethodNotAllowed | RouteMatchFound

datatype kind = staticKind | paramKind | anyKind

abbreviation paramLabel :: char where "paramLabel \<equiv> CHR '':''"
abbreviation anyLabel :: char where "anyLabel \<equiv> CHR ''*''"

text \<open>The method names of \<open>net/http\<close> and the two WebDAV names of \<open>echo.go\<close>.\<close>

abbreviation MethodConnect :: string where "MethodConnect \<equiv> ''CONNECT''"
abbreviation MethodDelete :: string where "MethodDelete \<equiv> ''DELETE''"
abbreviation MethodGet :: string where "MethodGet \<equiv> ''GET''"
abbreviation MethodHead :: string where "MethodHead \<equiv> ''HEAD''"
abbreviation MethodOptions :: string where "MethodOptions \<equiv> ''OPTIONS''"
abbreviation MethodPatch :: string where "MethodPatch \<equiv> ''PATCH''"
abbreviation MethodPost :: string where "MethodPost \<equiv> ''POST''"
abbreviation PROPFIND :: string where "PROPFIND \<equiv> ''PROPFIND''"
abbreviation MethodPut :: string where "MethodPut \<equiv> ''PUT''"
abbreviation MethodTrace :: string where "MethodTrace \<equiv> ''TRACE''"
abbreviation REPORT :: string where "REPORT \<equiv> ''REPORT''"

text \<open>
  \<open>routeInfo\<close> (declared in \<open>route.go\<close>; the router reads and writes these four fields).
  The interface \<open>RouteInfo\<close> is used by the router through \<open>Method()\<close> and \<open>Path()\<close> only;
  its values are modelled by the same record.
\<close>

record routeInfo =
  rmethod :: string
  path :: string
  params :: "string list"
  name :: string

type_synonym RouteInfo = routeInfo
type_synonym Routes = "RouteInfo list"

text \<open>\<open>routeMethod\<close> embeds \<open>*routeInfo\<close>: a record extension.\<close>

record routeMethod = routeInfo +
  handler :: "HandlerFunc option"
  orgRouteInfo :: "RouteInfo option"

record routeMethods =
  connect :: "routeMethod option"
  delete :: "routeMethod option"
  get :: "routeMethod option"
  head :: "routeMethod option"
  options :: "routeMethod option"
  patch :: "routeMethod option"
  post :: "routeMethod option"
  propfind :: "routeMethod option"
  put :: "routeMethod option"
  trace :: "routeMethod option"
  report :: "routeMethod option"
  anyOther :: "(string \<times> routeMethod) list"

type_synonym children = "nat list option"

record node =
  kind :: kind
  label :: char
  prefix :: string
  parent :: "nat option"
  staticChildren :: children
  originalPath :: string
  methods :: routeMethods
  paramChild :: "nat option"
  anyChild :: "nat option"
  paramsCount :: nat
  isLeaf :: bool
  isHandler :: bool

record PathParam =
  Name :: string
  Value :: string

type_synonym PathParams = "PathParam list"

record RouteMatch =
  Type :: RouteMatchType
  RoutePath :: string
  Handler :: HandlerFunc
  RouteInfo :: routeInfo

record RouterConfig =
  AllowOverwritingRoute :: bool
  UnescapePathParamValues :: bool
  UseEscapedPathForMatching :: bool

record DefaultRouter =
  tree :: "nat option"
  nodes :: "node list"
  routes :: Routes
  allowOverwritingRoute :: bool
  unescapePathParamValues :: bool
  useEscapedPathForRouting :: bool

text \<open>
  \<open>Route\<close> and the interface \<open>Routable\<close> (\<open>route.go\<close>): the router calls \<open>ToRoute\<close> and
  \<open>ToRouteInfo\<close>.
\<close>

record Route =
  Route_Method :: string
  Route_Path :: string
  Route_Handler :: "HandlerFunc option"
  Route_Middlewares :: "MiddlewareFunc list"
  Route_Name :: string

record Routable =
  ToRoute :: Route
  ToRouteInfo :: "string list \<Rightarrow> RouteInfo"

text \<open>The part of \<open>http.Request\<close> that \<open>Match\<close> reads: the method, \<open>URL.Path\<close>, \<open>URL.RawPath\<close>.\<close>

record Request =
  Req_Method :: string
  URL_Path :: string
  URL_RawPath :: string

datatype AddRouteError = AddRouteError string string string

section \<open>The method table\<close>

definition emptyMethods :: routeMethods where
  "emptyMethods = \<lparr>connect = None, delete = None, get = None, head = None, options = None,
     patch = None, post = None, propfind = None, put = None, trace = None, report = None,
     anyOther = []\<rparr>"

text \<open>
  \<open>routeMethods.set\<close>. In the default case the source reads \<open>r.handler\<close> before anything
  else is done with \<open>r\<close>: a nil \<open>r\<close> panics there.
\<close>

definition set_rm :: "routeMethods \<Rightarrow> string \<Rightarrow> routeMethod option \<Rightarrow> panic + routeMethods" where
  "set_rm m meth r =
     (if meth = MethodConnect then Inr (m\<lparr>connect := r\<rparr>)
      else if meth = MethodDelete then Inr (m\<lparr>delete := r\<rparr>)
      else if meth = MethodGet then Inr (m\<lparr>get := r\<rparr>)
      else if meth = MethodHead then Inr (m\<lparr>head := r\<rparr>)
      else if meth = MethodOptions then Inr (m\<lparr>options := r\<rparr>)
      else if meth = MethodPatch then Inr (m\<lparr>patch := r\<rparr>)
      else if meth = MethodPost then Inr (m\<lparr>post := r\<rparr>)
      else if meth = PROPFIND then Inr (m\<lparr>propfind := r\<rparr>)
      else if meth = MethodPut then Inr (m\<lparr>put := r\<rparr>)
      else if meth = MethodTrace then Inr (m\<lparr>trace := r\<rparr>)
      else if meth = REPORT then Inr (m\<lparr>report := r\<rparr>)
      else (case r of
              None \<Rightarrow> Inl NilDereference
            | Some rm \<Rightarrow>
                (if handler rm = None
                 then Inr (m\<lparr>anyOther := AList.delete meth (anyOther m)\<rparr>)
                 else Inr (m\<lparr>anyOther := AList.update meth rm (anyOther m)\<rparr>))))"

definition find_rm :: "routeMethods \<Rightarrow> string \<Rightarrow> routeMethod option" where
  "find_rm m meth =
     (if meth = MethodConnect then connect m
      else if meth = MethodDelete then delete m
      else if meth = MethodGet then get m
      else if meth = MethodHead then head m
      else if meth = MethodOptions then options m
      else if meth = MethodPatch then patch m
      else if meth = MethodPost then post m
      else if meth = PROPFIND then propfind m
      else if meth = MethodPut then put m
      else if meth = MethodTrace then trace m
      else if meth = REPORT then report m
      else map_of (anyOther m) meth)"

definition isHandler_rm :: "routeMethods \<Rightarrow> bool" where
  "isHandler_rm m \<longleftrightarrow>
     get m \<noteq> None \<or> post m \<noteq> None \<or> options m \<noteq> None \<or> put m \<noteq> None \<or>
     delete m \<noteq> None \<or> connect m \<noteq> None \<or> head m \<noteq> None \<or> patch m \<noteq> None \<or>
     propfind m \<noteq> None \<or> trace m \<noteq> None \<or> report m \<noteq> None \<or>
     length (anyOther m) \<noteq> 0"

section \<open>Nodes\<close>

definition elems :: "children \<Rightarrow> nat list" where
  "elems sc = (case sc of None \<Rightarrow> [] | Some cs \<Rightarrow> cs)"

text \<open>\<open>newNode\<close>; every call of the source passes a non-empty \<open>pre\<close>.\<close>

definition newNode ::
  "kind \<Rightarrow> string \<Rightarrow> nat option \<Rightarrow> children \<Rightarrow> routeMethods \<Rightarrow> nat \<Rightarrow> string \<Rightarrow>
   nat option \<Rightarrow> nat option \<Rightarrow> node" where
  "newNode t pre p sc mh pc ppath paramChildren anyChildren =
     \<lparr>kind = t, label = pre ! 0, prefix = pre, parent = p, staticChildren = sc,
      originalPath = ppath, methods = mh, paramChild = paramChildren,
      anyChild = anyChildren, paramsCount = pc,
      isLeaf = (sc = None \<and> paramChildren = None \<and> anyChildren = None),
      isHandler = isHandler_rm mh\<rparr>"

definition addStaticChild :: "node \<Rightarrow> nat \<Rightarrow> node" where
  "addStaticChild n c = n\<lparr>staticChildren := Some (elems (staticChildren n) @ [c])\<rparr>"

definition findStaticChild :: "node list \<Rightarrow> node \<Rightarrow> char \<Rightarrow> nat option" where
  "findStaticChild ns n l = List.find (\<lambda>c. label (ns ! c) = l) (elems (staticChildren n))"

definition findChildWithLabel :: "node list \<Rightarrow> node \<Rightarrow> char \<Rightarrow> nat option" where
  "findChildWithLabel ns n l =
     (case List.find (\<lambda>c. label (ns ! c) = l) (elems (staticChildren n)) of
        Some c \<Rightarrow> Some c
      | None \<Rightarrow>
          (if l = paramLabel then paramChild n
           else if l = anyLabel then anyChild n
           else None))"

definition setHandler :: "node \<Rightarrow> string \<Rightarrow> routeMethod option \<Rightarrow> panic + node" where
  "setHandler n meth r =
     (case set_rm (methods n) meth r of
        Inl e \<Rightarrow> Inl e
      | Inr m \<Rightarrow>
          (let n1 = n\<lparr>methods := m\<rparr>
           in if r \<noteq> None \<and> handler (the r) \<noteq> None
              then Inr (n1\<lparr>isHandler := True\<rparr>)
              else Inr (n1\<lparr>isHandler := isHandler_rm m\<rparr>)))"

definition NewRouter :: "RouterConfig \<Rightarrow> DefaultRouter" where
  "NewRouter config =
     \<lparr>tree = Some 0,
      nodes = [\<lparr>kind = staticKind, label = CHR 0x00, prefix = [], parent = None,
                staticChildren = None, originalPath = [], methods = emptyMethods,
                paramChild = None, anyChild = None, paramsCount = 0,
                isLeaf = True, isHandler = False\<rparr>],
      routes = [],
      allowOverwritingRoute = AllowOverwritingRoute config,
      unescapePathParamValues = UnescapePathParamValues config,
      useEscapedPathForRouting = UseEscapedPathForMatching config\<rparr>"

section \<open>Registration: \<open>insert\<close> and \<open>Add\<close>\<close>

text \<open>The length of the longest common prefix, as the two LCP loops of the source compute it.\<close>

fun lcpLen :: "string \<Rightarrow> string \<Rightarrow> nat" where
  "lcpLen (x # xs) (y # ys) = (if x = y then Suc (lcpLen xs ys) else 0)"
| "lcpLen _ _ = 0"

text \<open>
  The two statements \<open>n.setHandler(method, &ri); n.paramsCount = len(ri.params)\<close> that
  every branch of \<open>insert\<close> runs under \<open>ri.handler != nil\<close>.
\<close>

definition attachHandler :: "node \<Rightarrow> string \<Rightarrow> routeMethod \<Rightarrow> panic + node" where
  "attachHandler n meth ri =
     (case setHandler n meth (Some ri) of
        Inl e \<Rightarrow> Inl e
      | Inr n1 \<Rightarrow> Inr (n1\<lparr>paramsCount := length (params ri)\<rparr>))"

definition leafNow :: "node \<Rightarrow> bool" where
  "leafNow n \<longleftrightarrow> staticChildren n = None \<and> paramChild n = None \<and> anyChild n = None"

text \<open>Branch \<open>lcpLen == 0\<close> (``At root node'').\<close>

definition insert_at_root ::
  "kind \<Rightarrow> string \<Rightarrow> string \<Rightarrow> routeMethod \<Rightarrow> nat \<Rightarrow> node list \<Rightarrow> panic + node list" where
  "insert_at_root t search meth ri c ns =
     (if search = [] then Inl IndexOutOfRange
      else
        (let n0 = (ns ! c)\<lparr>label := search ! 0, prefix := search\<rparr>
         in case (if handler ri \<noteq> None
                  then (case attachHandler (n0\<lparr>kind := t\<rparr>) meth ri of
                          Inl e \<Rightarrow> Inl e
                        | Inr n1 \<Rightarrow> Inr (n1\<lparr>originalPath := path ri\<rparr>))
                  else Inr n0) of
              Inl e \<Rightarrow> Inl e
            | Inr n2 \<Rightarrow> Inr (ns[c := n2\<lparr>isLeaf := leafNow n2\<rparr>])))"

text \<open>Branch \<open>lcpLen < prefixLen\<close> (``Split node'').\<close>

definition setParent :: "nat \<Rightarrow> nat \<Rightarrow> node list \<Rightarrow> node list" where
  "setParent p ch ns = ns[ch := (ns ! ch)\<lparr>parent := Some p\<rparr>]"

definition insert_split ::
  "kind \<Rightarrow> string \<Rightarrow> nat \<Rightarrow> string \<Rightarrow> routeMethod \<Rightarrow> nat \<Rightarrow> node list \<Rightarrow> panic + node list" where
  "insert_split t search lcp meth ri c ns =
     (let cur = ns ! c;
          ni = length ns;
          n = newNode (kind cur) (drop lcp (prefix cur)) (Some c) (staticChildren cur)
                (methods cur) (paramsCount cur) (originalPath cur) (paramChild cur) (anyChild cur);
          ns1 = ns @ [n];
          ns2 = fold (setParent ni) (elems (staticChildren cur)) ns1;
          ns3 = (case paramChild cur of None \<Rightarrow> ns2 | Some pc \<Rightarrow> setParent ni pc ns2);
          ns4 = (case anyChild cur of None \<Rightarrow> ns3 | Some ac \<Rightarrow> setParent ni ac ns3);
          cur0 = ns4 ! c;
          cur1 = cur0\<lparr>kind := staticKind, label := prefix cur0 ! 0,
                      prefix := take lcp (prefix cur0), staticChildren := None,
                      methods := emptyMethods, originalPath := [], paramsCount := 0,
                      paramChild := None, anyChild := None, isLeaf := False,
                      isHandler := False\<rparr>;
          cur2 = addStaticChild cur1 ni
      in if lcp = length search then
           (case (if handler ri \<noteq> None
                  then (case attachHandler (cur2\<lparr>kind := t\<rparr>) meth ri of
                          Inl e \<Rightarrow> Inl e
                        | Inr n1 \<Rightarrow> Inr (n1\<lparr>originalPath := path ri\<rparr>))
                  else Inr (cur2\<lparr>kind := t\<rparr>)) of
              Inl e \<Rightarrow> Inl e
            | Inr cur3 \<Rightarrow> Inr (ns4[c := cur3\<lparr>isLeaf := leafNow cur3\<rparr>]))
         else
           (let m0 = newNode t (drop lcp search) (Some c) None emptyMethods 0 (path ri) None None
            in case (if handler ri \<noteq> None then attachHandler m0 meth ri else Inr m0) of
                 Inl e \<Rightarrow> Inl e
               | Inr m1 \<Rightarrow>
                   (let cur3 = addStaticChild cur2 (length ns4)
                    in Inr ((ns4 @ [m1])[c := cur3\<lparr>isLeaf := leafNow cur3\<rparr>]))))"

text \<open>Branch \<open>lcpLen < searchLen\<close> with no child of that label (``Create child node'').\<close>

definition insert_child ::
  "kind \<Rightarrow> string \<Rightarrow> string \<Rightarrow> routeMethod \<Rightarrow> nat \<Rightarrow> node list \<Rightarrow> panic + node list" where
  "insert_child t search meth ri c ns =
     (let n0 = newNode t search (Some c) None emptyMethods 0 (path ri) None None
      in case (if handler ri \<noteq> None then attachHandler n0 meth ri else Inr n0) of
           Inl e \<Rightarrow> Inl e
         | Inr n1 \<Rightarrow>
             (let ni = length ns;
                  cur = ns ! c;
                  cur1 = (case t of
                            staticKind \<Rightarrow> addStaticChild cur ni
                          | paramKind \<Rightarrow> cur\<lparr>paramChild := Some ni\<rparr>
                          | anyKind \<Rightarrow> cur\<lparr>anyChild := Some ni\<rparr>)
              in Inr ((ns @ [n1])[c := cur1\<lparr>isLeaf := leafNow cur1\<rparr>])))"

text \<open>The last branch (``Node already exists'').\<close>

definition insert_existing ::
  "string \<Rightarrow> routeMethod \<Rightarrow> nat \<Rightarrow> node list \<Rightarrow> panic + node list" where
  "insert_existing meth ri c ns =
     (if handler ri \<noteq> None
      then (case attachHandler (ns ! c) meth ri of
              Inl e \<Rightarrow> Inl e
            | Inr n1 \<Rightarrow> Inr (ns[c := n1\<lparr>originalPath := path ri\<rparr>]))
      else Inr ns)"

text \<open>
  \<open>insert\<close>: the loop descends (\<open>continue\<close>) only after cutting a non-empty prefix off
  \<open>search\<close>, so it ends on every arena. \<open>c\<close> is \<open>currentNode\<close>.
\<close>

function insert_node ::
  "kind \<Rightarrow> string \<Rightarrow> string \<Rightarrow> routeMethod \<Rightarrow> nat \<Rightarrow> node list \<Rightarrow> panic + node list" where
  "insert_node t search meth ri c ns =
     (let lcp = lcpLen search (prefix (ns ! c))
      in if lcp = 0 then insert_at_root t search meth ri c ns
         else if lcp < length (prefix (ns ! c)) then insert_split t search lcp meth ri c ns
         else if lcp < length search then
           (case findChildWithLabel ns (ns ! c) (drop lcp search ! 0) of
              Some c' \<Rightarrow> insert_node t (drop lcp search) meth ri c' ns
            | None \<Rightarrow> insert_child t (drop lcp search) meth ri c ns)
         else insert_existing meth ri c ns)"
  by pat_completeness auto
termination
  by (relation "measure (\<lambda>(t, search, meth, ri, c, ns). length search)") auto

declare insert_node.simps [simp del]

text \<open>
  Modelled from the spec: \<open>applyMiddleware\<close> lives in \<open>echo.go\<close>, which is not among the
  sources; middleware composition wraps the handler with the last middleware innermost.
\<close>

definition applyMiddleware :: "HandlerFunc \<Rightarrow> MiddlewareFunc list \<Rightarrow> HandlerFunc" where
  "applyMiddleware h ms = foldr (\<lambda>m g. m g) ms h"

text \<open>The handler-less \<open>routeMethod{routeInfo: &routeInfo{method: method}}\<close>.\<close>

definition intermediate :: "string \<Rightarrow> routeMethod" where
  "intermediate meth =
     \<lparr>rmethod = meth, path = [], params = [], name = [], handler = None, orgRouteInfo = None\<rparr>"

text \<open>
  The scanning loop of \<open>Add\<close> over \<open>path\<close>, from index \<open>i\<close>. \<open>mk\<close> builds the final
  \<open>routeMethod\<close> from the parameter names. The result is \<open>wasAdded\<close>, the rewritten
  \<open>path\<close>, \<open>paramNames\<close> and the arena.
\<close>

function add_scan ::
  "(string list \<Rightarrow> routeMethod) \<Rightarrow> string \<Rightarrow> nat \<Rightarrow> nat \<Rightarrow> string \<Rightarrow> string list \<Rightarrow> node list \<Rightarrow>
   panic + (bool \<times> string \<times> string list \<times> node list)" where
  "add_scan mk meth root i pth names ns =
     (if i < length pth then
        (if pth ! i = paramLabel then
           (if i > 0 \<and> pth ! (i - 1) = CHR 0x5C
            then add_scan mk meth root (i + 1) pth names ns
            else
              (case insert_node staticKind (take i pth) meth (intermediate meth) root ns of
                 Inl e \<Rightarrow> Inl e
               | Inr ns1 \<Rightarrow>
                   (let j = i + 1;
                        i2 = i + length (takeWhile (\<lambda>ch. ch \<noteq> CHR ''/'') (drop i pth));
                        names' = names @ [take (i2 - j) (drop j pth)];
                        pth' = take j pth @ drop i2 pth
                    in if j = length pth' then
                         (case insert_node paramKind (take j pth') meth (mk names') root ns1 of
                            Inl e \<Rightarrow> Inl e
                          | Inr ns2 \<Rightarrow> Inr (True, pth', names', ns2))
                       else
                         (case insert_node paramKind (take j pth') meth (intermediate meth) root ns1 of
                            Inl e \<Rightarrow> Inl e
                          | Inr ns2 \<Rightarrow> add_scan mk meth root (j + 1) pth' names' ns2))))
         else if pth ! i = anyLabel then
           (case insert_node staticKind (take i pth) meth (intermediate meth) root ns of
              Inl e \<Rightarrow> Inl e
            | Inr ns1 \<Rightarrow>
                (let names' = names @ [''*'']
                 in case insert_node anyKind (take (i + 1) pth) meth (mk names') root ns1 of
                      Inl e \<Rightarrow> Inl e
                    | Inr ns2 \<Rightarrow> Inr (True, pth, names', ns2)))
         else add_scan mk meth root (i + 1) pth names ns)
      else Inr (False, pth, names, ns))"
  by pat_completeness auto
termination
  by (relation "measure (\<lambda>(mk, meth, root, i, pth, names, ns). length pth - i)") auto

declare add_scan.simps [simp del]

fun storeRouteInfo :: "Routes \<Rightarrow> RouteInfo \<Rightarrow> Routes" where
  "storeRouteInfo [] ri = [ri]"
| "storeRouteInfo (rr # rs) ri =
     (if rmethod ri = rmethod rr \<and> path ri = path rr then ri # rs
      else rr # storeRouteInfo rs ri)"

definition normalizePath :: "string \<Rightarrow> string" where
  "normalizePath p =
     (let p1 = (if p = [] then ''/'' else p)
      in if p1 ! 0 \<noteq> CHR ''/'' then ''/'' @ p1 else p1)"

text \<open>
  \<open>Add\<close>. The result is a panic, or the returned pair \<open>(RouteInfo, error)\<close> (one of the
  two is nil in the source) together with the router after the call.
\<close>

definition Add ::
  "DefaultRouter \<Rightarrow> Routable \<Rightarrow> panic + ((AddRouteError + RouteInfo) \<times> DefaultRouter)" where
  "Add r routable =
     (let route = ToRoute routable
      in if Route_Handler route = None then
           Inr (Inl (AddRouteError (Route_Method route) (Route_Path route)
                  ''adding route without handler function''), r)
         else
           (let meth = Route_Method route;
                h = applyMiddleware (the (Route_Handler route)) (Route_Middlewares route)
            in if \<not> allowOverwritingRoute r \<and>
                  list_ex (\<lambda>rr. Route_Method route = rmethod rr \<and> Route_Path route = path rr)
                    (routes r)
               then Inr (Inl (AddRouteError (Route_Method route) (Route_Path route)
                      ''adding duplicate route (same method+path) is not allowed''), r)
               else
                 (let pth = normalizePath (Route_Path route);
                      mk = (\<lambda>names.
                             \<lparr>rmethod = meth, path = pth, params = names,
                              name = Route_Name route, handler = Some h,
                              orgRouteInfo = Some (ToRouteInfo routable names)\<rparr>)
                  in case tree r of
                       None \<Rightarrow> Inl NilDereference
                     | Some root \<Rightarrow>
                         (case add_scan mk meth root 0 pth [] (nodes r) of
                            Inl e \<Rightarrow> Inl e
                          | Inr (wasAdded, pth', names, ns) \<Rightarrow>
                              (case (if wasAdded then Inr ns
                                     else insert_node staticKind pth' meth (mk names) root ns) of
                                 Inl e \<Rightarrow> Inl e
                               | Inr ns' \<Rightarrow>
                                   (let ri = ToRouteInfo routable names
                                    in Inr (Inr ri,
                                            r\<lparr>nodes := ns',
                                              routes := storeRouteInfo (routes r) ri\<rparr>)))))))"

section \<open>Matching\<close>

text \<open>
  The local variables of \<open>Match\<close> that its loop and the closure
  \<open>backtrackToNextNodeKind\<close> share. \<open>pathParams\<close> is the caller's slice, extended to its
  capacity. \<open>searchIndex\<close> and \<open>paramIndex\<close> are Go \<open>int\<close>s; where the source would make
  one negative it panics in the same call (at the slicing or indexing that follows), so
  they are naturals and those places are written out as panics.
\<close>

record mstate =
  currentNode :: "nat option"
  previousBestMatchNode :: "nat option"
  matchedRouteMethod :: "routeMethod option"
  search :: string
  searchIndex :: nat
  paramIndex :: nat
  pathParams :: PathParams

text \<open>
  The places a loop iteration is entered at: the head of the \<open>for\<close> loop and the labels
  \<open>Param\<close> and \<open>Any\<close>. A pass through the body ends with \<open>continue\<close> or \<open>goto\<close>
  (\<open>Next\<close>), with \<open>break\<close> (\<open>Break\<close>) or with a panic.
\<close>

datatype pc = LoopTop | ParamLabel | AnyLabel

datatype step = Next pc mstate | Break mstate | Panicked panic

definition backtrackToNextNodeKind ::
  "node list \<Rightarrow> string \<Rightarrow> kind \<Rightarrow> mstate \<Rightarrow> panic + (kind \<times> bool \<times> mstate)" where
  "backtrackToNextNodeKind ns pth fromKind st =
     (case currentNode st of
        None \<Rightarrow> Inl NilDereference
      | Some p \<Rightarrow>
          (let previous = ns ! p;
               st1 = st\<lparr>currentNode := parent previous\<rparr>;
               valid = (parent previous \<noteq> None);
               nextNodeKind =
                 (if kind previous = anyKind then staticKind
                  else if kind previous = staticKind then paramKind else anyKind)
           in if fromKind = staticKind then Inr (nextNodeKind, valid, st1)
              else if kind previous = staticKind then
                (if searchIndex st1 < length (prefix previous) then Inl SliceBoundsOutOfRange
                 else
                   (let si = searchIndex st1 - length (prefix previous)
                    in if length pth < si then Inl SliceBoundsOutOfRange
                       else Inr (nextNodeKind, valid,
                                 st1\<lparr>searchIndex := si, search := drop si pth\<rparr>)))
              else
                (if paramIndex st1 = 0 \<or> length (pathParams st1) \<le> paramIndex st1 - 1
                 then Inl IndexOutOfRange
                 else
                   (let pi = paramIndex st1 - 1;
                        v = Value (pathParams st1 ! pi)
                    in if searchIndex st1 < length v then Inl SliceBoundsOutOfRange
                       else
                         (let si = searchIndex st1 - length v
                          in if length pth < si then Inl SliceBoundsOutOfRange
                             else Inr (nextNodeKind, valid,
                                       st1\<lparr>paramIndex := pi, searchIndex := si,
                                           pathParams :=
                                             (pathParams st1)[pi := (pathParams st1 ! pi)\<lparr>Value := []\<rparr>],
                                           search := drop si pth\<rparr>))))))"

text \<open>The end of the loop body: ``Let's backtrack to the first possible alternative node''.\<close>

definition match_tail :: "node list \<Rightarrow> string \<Rightarrow> mstate \<Rightarrow> step" where
  "match_tail ns pth st =
     (case backtrackToNextNodeKind ns pth anyKind st of
        Inl e \<Rightarrow> Panicked e
      | Inr (nk, ok, st') \<Rightarrow>
          (if \<not> ok then Break st'
           else if nk = paramKind then Next ParamLabel st'
           else if nk = anyKind then Next AnyLabel st'
           else Break st'))"

definition noteBestMatch :: "nat \<Rightarrow> mstate \<Rightarrow> mstate" where
  "noteBestMatch c st =
     (if previousBestMatchNode st = None then st\<lparr>previousBestMatchNode := Some c\<rparr> else st)"

text \<open>From the label \<open>Any\<close> to the end of the body.\<close>

definition match_any :: "node list \<Rightarrow> string \<Rightarrow> string \<Rightarrow> mstate \<Rightarrow> step" where
  "match_any ns meth pth st =
     (case currentNode st of
        None \<Rightarrow> Panicked NilDereference
      | Some c \<Rightarrow>
          (case anyChild (ns ! c) of
             None \<Rightarrow> match_tail ns pth st
           | Some child \<Rightarrow>
               (let cnt = paramsCount (ns ! child)
                in if cnt = 0 \<or> length (pathParams st) \<le> cnt - 1 then Panicked IndexOutOfRange
                   else
                     (let st1 = st\<lparr>currentNode := Some child,
                                   pathParams :=
                                     (pathParams st)[cnt - 1 :=
                                        (pathParams st ! (cnt - 1))\<lparr>Value := search st\<rparr>],
                                   paramIndex := paramIndex st + 1,
                                   searchIndex := searchIndex st + length (search st),
                                   search := []\<rparr>;
                          st2 = noteBestMatch child st1
                      in case find_rm (methods (ns ! child)) meth of
                           Some rm \<Rightarrow> Break (st2\<lparr>matchedRouteMethod := Some rm\<rparr>)
                         | None \<Rightarrow> match_tail ns pth st2))))"

text \<open>
  How many bytes of \<open>search\<close> a Param node takes: all of them when the node is a leaf,
  else those before the first \<open>/\<close>.
\<close>

definition paramLen :: "node \<Rightarrow> string \<Rightarrow> nat" where
  "paramLen child s =
     (if isLeaf child then length s else length (takeWhile (\<lambda>ch. ch \<noteq> CHR ''/'') s))"

text \<open>From the label \<open>Param\<close> on.\<close>

definition match_param :: "node list \<Rightarrow> string \<Rightarrow> string \<Rightarrow> mstate \<Rightarrow> step" where
  "match_param ns meth pth st =
     (case currentNode st of
        None \<Rightarrow> Panicked NilDereference
      | Some c \<Rightarrow>
          (case (if search st \<noteq> [] then paramChild (ns ! c) else None) of
             None \<Rightarrow> match_any ns meth pth st
           | Some child \<Rightarrow>
               (let i = paramLen (ns ! child) (search st)
                in if length (pathParams st) \<le> paramIndex st then Panicked IndexOutOfRange
                   else Next LoopTop
                          (st\<lparr>currentNode := Some child,
                              pathParams :=
                                (pathParams st)[paramIndex st :=
                                   (pathParams st ! paramIndex st)\<lparr>Value := take i (search st)\<rparr>],
                              paramIndex := paramIndex st + 1,
                              search := drop i (search st),
                              searchIndex := searchIndex st + i\<rparr>))))"

text \<open>From the comment ``Static node'' on.\<close>

definition match_static :: "node list \<Rightarrow> string \<Rightarrow> string \<Rightarrow> mstate \<Rightarrow> step" where
  "match_static ns meth pth st =
     (case currentNode st of
        None \<Rightarrow> Panicked NilDereference
      | Some c \<Rightarrow>
          (case (if search st \<noteq> [] then findStaticChild ns (ns ! c) (search st ! 0) else None) of
             Some child \<Rightarrow> Next LoopTop (st\<lparr>currentNode := Some child\<rparr>)
           | None \<Rightarrow> match_param ns meth pth st))"

text \<open>From the head of the loop on.\<close>

definition match_top :: "node list \<Rightarrow> string \<Rightarrow> string \<Rightarrow> mstate \<Rightarrow> step" where
  "match_top ns meth pth st =
     (case currentNode st of
        None \<Rightarrow> Panicked NilDereference
      | Some c \<Rightarrow>
          (let n = ns ! c;
               prefixLen = (if kind n = staticKind then length (prefix n) else 0);
               lcp = (if kind n = staticKind then lcpLen (search st) (prefix n) else 0)
           in if lcp \<noteq> prefixLen then
                (case backtrackToNextNodeKind ns pth staticKind st of
                   Inl e \<Rightarrow> Panicked e
                 | Inr (nk, ok, st') \<Rightarrow>
                     (if \<not> ok then Break st'
                      else if nk = paramKind then Next ParamLabel st'
                      else Break st'))
              else
                (let st1 = st\<lparr>search := drop lcp (search st),
                              searchIndex := searchIndex st + lcp\<rparr>
                 in if search st1 = [] \<and> isHandler n then
                      (case find_rm (methods n) meth of
                         Some rm \<Rightarrow> Break ((noteBestMatch c st1)\<lparr>matchedRouteMethod := Some rm\<rparr>)
                       | None \<Rightarrow> match_static ns meth pth (noteBestMatch c st1))
                    else match_static ns meth pth st1)))"

definition match_body :: "node list \<Rightarrow> string \<Rightarrow> string \<Rightarrow> pc \<Rightarrow> mstate \<Rightarrow> step" where
  "match_body ns meth pth l st =
     (case l of
        LoopTop \<Rightarrow> match_top ns meth pth st
      | ParamLabel \<Rightarrow> match_param ns meth pth st
      | AnyLabel \<Rightarrow> match_any ns meth pth st)"

text \<open>The loop: \<open>None\<close> when it never leaves.\<close>

partial_function (option) match_loop ::
  "node list \<Rightarrow> string \<Rightarrow> string \<Rightarrow> pc \<Rightarrow> mstate \<Rightarrow> (panic + mstate) option" where
  "match_loop ns meth pth l st =
     (case match_body ns meth pth l st of
        Next l' st' \<Rightarrow> match_loop ns meth pth l' st'
      | Break st' \<Rightarrow> Some (Inr st')
      | Panicked e \<Rightarrow> Some (Inl e))"

declare match_loop.simps [code]

text \<open>
  \<open>url.PathUnescape\<close> of Go's standard library (outside the repository): every \<open>%\<close> must
  be followed by two hexadecimal digits, and the three bytes stand for the byte of that
  value; \<open>None\<close> is its \<open>EscapeError\<close>.
\<close>

definition between :: "char \<Rightarrow> char \<Rightarrow> char \<Rightarrow> bool" where
  "between lo hi c \<longleftrightarrow> (of_char lo :: nat) \<le> of_char c \<and> (of_char c :: nat) \<le> of_char hi"

definition ishex :: "char \<Rightarrow> bool" where
  "ishex c \<longleftrightarrow>
     between CHR ''0'' CHR ''9'' c \<or> between CHR ''a'' CHR ''f'' c \<or> between CHR ''A'' CHR ''F'' c"

definition unhex :: "char \<Rightarrow> nat" where
  "unhex c =
     (if between CHR ''0'' CHR ''9'' c then of_char c - of_char CHR ''0''
      else if between CHR ''a'' CHR ''f'' c then of_char c - of_char CHR ''a'' + 10
      else if between CHR ''A'' CHR ''F'' c then of_char c - of_char CHR ''A'' + 10
      else 0)"

fun PathUnescape :: "string \<Rightarrow> string option" where
  "PathUnescape [] = Some []"
| "PathUnescape (c # cs) =
     (if c = CHR ''%'' then
        (case cs of
           h1 # h2 # rest \<Rightarrow>
             (if ishex h1 \<and> ishex h2
              then map_option ((#) (char_of (unhex h1 * 16 + unhex h2))) (PathUnescape rest)
              else None)
         | _ \<Rightarrow> None)
      else map_option ((#) c) (PathUnescape cs))"

definition notFoundRouteInfo :: routeInfo where
  "notFoundRouteInfo = \<lparr>rmethod = [], path = [], params = [], name = ''EchoRouteNotFound''\<rparr>"

definition methodNotAllowedRouteInfo :: routeInfo where
  "methodNotAllowedRouteInfo =
     \<lparr>rmethod = [], path = [], params = [], name = ''EchoRouteMethodNotAllowed''\<rparr>"

text \<open>\<open>for i, name := range matchedRouteMethod.params { (*pathParams)[i].Name = name }\<close>\<close>

definition setNames :: "string list \<Rightarrow> PathParams \<Rightarrow> panic + PathParams" where
  "setNames names ps =
     (if length ps < length names then Inl IndexOutOfRange
      else Inr (map (\<lambda>(n, p). p\<lparr>Name := n\<rparr>) (zip names ps) @ drop (length names) ps))"

text \<open>The loop over \<open>*pathParams\<close> under \<open>unescapePathParamValues\<close>.\<close>

definition unescapeValues :: "PathParams \<Rightarrow> PathParams" where
  "unescapeValues ps =
     map (\<lambda>p. case PathUnescape (Value p) of Some v \<Rightarrow> p\<lparr>Value := v\<rparr> | None \<Rightarrow> p) ps"

text \<open>The part of \<open>Match\<close> after the loop, from the state the loop left.\<close>

definition match_result :: "DefaultRouter \<Rightarrow> mstate \<Rightarrow> panic + (RouteMatch \<times> PathParams)" where
  "match_result r st =
     (let result = \<lparr>Type = RouteMatchNotFound, RoutePath = [], Handler = notFoundHandler,
                    RouteInfo = notFoundRouteInfo\<rparr>
      in if currentNode st = None \<and> previousBestMatchNode st = None then Inr (result, [])
         else
           (case (case matchedRouteMethod st of
                    Some rm \<Rightarrow>
                      Inr (result\<lparr>Type := RouteMatchFound, Handler := the (handler rm),
                                  RoutePath := path rm, RouteInfo := routeInfo.truncate rm\<rparr>,
                           currentNode st)
                  | None \<Rightarrow>
                      (case previousBestMatchNode st of
                         None \<Rightarrow> Inl NilDereference
                       | Some b \<Rightarrow>
                           (let n = nodes r ! b;
                                result1 = result\<lparr>RoutePath := originalPath n\<rparr>
                            in if isHandler n
                               then Inr (result1\<lparr>Type := RouteMatchMethodNotAllowed,
                                                 Handler := methodNotAllowedHandler,
                                                 RouteInfo := methodNotAllowedRouteInfo\<rparr>,
                                         Some b)
                               else Inr (result1, Some b)))) of
              Inl e \<Rightarrow> Inl e
            | Inr (result2, cur) \<Rightarrow>
                (case cur of
                   None \<Rightarrow> Inl NilDereference
                 | Some c \<Rightarrow>
                     (let n = nodes r ! c
                      in if length (pathParams st) < paramsCount n then Inl SliceBoundsOutOfRange
                         else
                           (case (case matchedRouteMethod st of
                                    Some rm \<Rightarrow> setNames (params rm) (take (paramsCount n) (pathParams st))
                                  | None \<Rightarrow> Inr (take (paramsCount n) (pathParams st))) of
                              Inl e \<Rightarrow> Inl e
                            | Inr ps \<Rightarrow>
                                Inr (result2,
                                     if unescapePathParamValues r \<and> kind n \<noteq> staticKind
                                     then unescapeValues ps else ps))))))"

text \<open>The path \<open>Match\<close> searches for.\<close>

definition matchPath :: "DefaultRouter \<Rightarrow> Request \<Rightarrow> string" where
  "matchPath r req =
     (if \<not> useEscapedPathForRouting r \<and> URL_RawPath req \<noteq> [] then URL_RawPath req
      else URL_Path req)"

text \<open>
  \<open>Match\<close>: \<open>None\<close> when the loop never leaves; else a panic, or the returned
  \<open>RouteMatch\<close> and the caller's \<open>*pathParams\<close> after the call.
\<close>

definition Match ::
  "DefaultRouter \<Rightarrow> Request \<Rightarrow> PathParams \<Rightarrow> (panic + (RouteMatch \<times> PathParams)) option" where
  "Match r req pathParams0 =
     (let pth = matchPath r req
      in case match_loop (nodes r) (Req_Method req) pth LoopTop
                \<lparr>currentNode = tree r, previousBestMatchNode = None, matchedRouteMethod = None,
                 search = pth, searchIndex = 0, paramIndex = 0, pathParams = pathParams0\<rparr> of
           None \<Rightarrow> None
         | Some (Inl e) \<Rightarrow> Some (Inl e)
         | Some (Inr st) \<Rightarrow> Some (match_result r st))"

section \<open>Removal\<close>

text \<open>
  The index a \<open>for i, x := range xs { if P x { index = i; break } }\<close> loop leaves in
  a variable that starts at zero.
\<close>

definition firstIndex :: "('a \<Rightarrow> bool) \<Rightarrow> 'a list \<Rightarrow> nat" where
  "firstIndex P xs = (if list_ex P xs then length (takeWhile (\<lambda>x. \<not> P x) xs) else 0)"

text \<open>\<open>append(xs[:i], xs[i+1:]...)\<close>\<close>

definition removeAt :: "nat \<Rightarrow> 'a list \<Rightarrow> panic + 'a list" where
  "removeAt i xs =
     (if length xs < i + 1 then Inl SliceBoundsOutOfRange else Inr (take i xs @ drop (i + 1) xs))"

text \<open>
  The first loop of \<open>Remove\<close>, from \<open>currentNode = c\<close>: the result is \<open>nodeToRemove\<close>.
\<close>

partial_function (option) remove_find ::
  "node list \<Rightarrow> string \<Rightarrow> nat \<Rightarrow> nat \<Rightarrow> nat option option" where
  "remove_find ns pth c prefixLen =
     (if originalPath (ns ! c) = pth \<and> isHandler (ns ! c) then Some (Some c)
      else
        (let prefixLen' =
               (if kind (ns ! c) = staticKind then prefixLen + length (prefix (ns ! c))
                else length (originalPath (ns ! c)))
         in if length pth \<le> prefixLen' then Some None
            else
              (case (if pth ! prefixLen' = paramLabel then paramChild (ns ! c)
                     else if pth ! prefixLen' = anyLabel then anyChild (ns ! c)
                     else findStaticChild ns (ns ! c) (pth ! prefixLen')) of
                 None \<Rightarrow> Some None
               | Some c' \<Rightarrow> remove_find ns pth c' prefixLen')))"

declare remove_find.simps [code]

text \<open>The body of the pruning loop up to the assignment of \<open>parent.isLeaf\<close>.\<close>

definition detach :: "node list \<Rightarrow> nat \<Rightarrow> nat \<Rightarrow> panic + node" where
  "detach ns current p =
     (case (case kind (ns ! current) of
              staticKind \<Rightarrow>
                (case removeAt (firstIndex (\<lambda>c. c = current) (elems (staticChildren (ns ! p))))
                        (elems (staticChildren (ns ! p))) of
                   Inl e \<Rightarrow> Inl e
                 | Inr cs \<Rightarrow> Inr ((ns ! p)\<lparr>staticChildren := Some cs\<rparr>))
            | paramKind \<Rightarrow> Inr ((ns ! p)\<lparr>paramChild := None\<rparr>)
            | anyKind \<Rightarrow> Inr ((ns ! p)\<lparr>anyChild := None\<rparr>)) of
        Inl e \<Rightarrow> Inl e
      | Inr pn \<Rightarrow>
          Inr (pn\<lparr>isLeaf := (anyChild pn = None \<and> paramChild pn = None \<and>
                              length (elems (staticChildren pn)) = 0)\<rparr>))"

partial_function (option) remove_prune ::
  "node list \<Rightarrow> nat \<Rightarrow> (panic + node list) option" where
  "remove_prune ns current =
     (case parent (ns ! current) of
        None \<Rightarrow> Some (Inr ns)
      | Some p \<Rightarrow>
          (case detach ns current p of
             Inl e \<Rightarrow> Some (Inl e)
           | Inr pn \<Rightarrow>
               (if \<not> isLeaf pn \<or> isHandler pn then Some (Inr (ns[p := pn]))
                else remove_prune (ns[p := pn]) p)))"

declare remove_prune.simps [code]

text \<open>
  \<open>Remove\<close>: \<open>None\<close> when a loop never leaves; else a panic, or the returned error
  (its message; \<open>None\<close> is \<open>nil\<close>) and the router after the call.
\<close>

definition Remove ::
  "DefaultRouter \<Rightarrow> string \<Rightarrow> string \<Rightarrow> (panic + (string option \<times> DefaultRouter)) option" where
  "Remove r meth path0 =
     (case tree r of
        None \<Rightarrow> Some (Inr (Some ''router has no routes to remove'', r))
      | Some root \<Rightarrow>
          (if isLeaf (nodes r ! root) \<and> \<not> isHandler (nodes r ! root)
           then Some (Inr (Some ''router has no routes to remove'', r))
           else
             (let pth = normalizePath path0
              in case remove_find (nodes r) pth root 0 of
                   None \<Rightarrow> None
                 | Some None \<Rightarrow>
                     Some (Inr (Some ''could not find route to remove by given path'', r))
                 | Some (Some k) \<Rightarrow>
                     (if \<not> isHandler (nodes r ! k)
                      then Some (Inr (Some ''could not find route to remove by given path'', r))
                      else if find_rm (methods (nodes r ! k)) meth = None
                      then Some (Inr (Some ''could not find route to remove by given path and method'', r))
                      else
                        (case setHandler (nodes r ! k) meth None of
                           Inl e \<Rightarrow> Some (Inl e)
                         | Inr n' \<Rightarrow>
                             (case removeAt
                                     (firstIndex (\<lambda>rr. rmethod rr = meth \<and> path rr = pth) (routes r))
                                     (routes r) of
                                Inl e \<Rightarrow> Some (Inl e)
                              | Inr rs \<Rightarrow>
                                  (if \<not> isHandler n' \<and> isLeaf n' then
                                     (case remove_prune ((nodes r)[k := n']) k of
                                        None \<Rightarrow> None
                                      | Some (Inl e) \<Rightarrow> Some (Inl e)
                                      | Some (Inr ns2) \<Rightarrow>
                                          Some (Inr (None, r\<lparr>nodes := ns2, routes := rs\<rparr>)))
                                   else Some (Inr (None, r\<lparr>nodes := (nodes r)[k := n'],
                                                          routes := rs\<rparr>)))))))))"

section \<open>Routes and requests for the scenarios\<close>

text \<open>
  Modelled from the spec: the stock \<open>Routable\<close> is \<open>Route\<close> of \<open>route.go\<close>, which is not
  among the sources; its \<open>to_route_info\<close> hands the method, the pattern and the parameter
  names on. \<open>h\<close> identifies the handler.
\<close>

definition routable :: "string \<Rightarrow> string \<Rightarrow> nat \<Rightarrow> Routable" where
  "routable meth pth h =
     \<lparr>ToRoute = \<lparr>Route_Method = meth, Route_Path = pth, Route_Handler = Some (UserHandler h),
                 Route_Middlewares = [], Route_Name = []\<rparr>,
      ToRouteInfo = (\<lambda>ps. \<lparr>rmethod = meth, path = pth, params = ps, name = []\<rparr>)\<rparr>"

definition noConfig :: RouterConfig where
  "noConfig = \<lparr>AllowOverwritingRoute = False, UnescapePathParamValues = False,
               UseEscapedPathForMatching = False\<rparr>"

text \<open>The router after registering routes in a row; \<open>None\<close> when a registration fails.\<close>

fun addRoutes :: "DefaultRouter \<Rightarrow> Routable list \<Rightarrow> DefaultRouter option" where
  "addRoutes r [] = Some r"
| "addRoutes r (x # xs) =
     (case Add r x of Inr (Inr ri, r') \<Rightarrow> addRoutes r' xs | _ \<Rightarrow> None)"

text \<open>
  The router with configuration \<open>cfg\<close> and the routes \<open>rs\<close>, registered in a row (the
  empty router if a registration fails).
\<close>

definition routerOf :: "RouterConfig \<Rightarrow> Routable list \<Rightarrow> DefaultRouter" where
  "routerOf cfg rs = (case addRoutes (NewRouter cfg) rs of Some r \<Rightarrow> r | None \<Rightarrow> NewRouter cfg)"

text \<open>A request whose path needs no escaping (\<open>RawPath\<close> is empty then).\<close>

definition request :: "string \<Rightarrow> string \<Rightarrow> Request" where
  "request meth p = \<lparr>Req_Method = meth, URL_Path = p, URL_RawPath = []\<rparr>"

text \<open>A parameter slice of capacity \<open>n\<close>, blank.\<close>

definition blankParams :: "nat \<Rightarrow> PathParams" where
  "blankParams n = replicate n \<lparr>Name = [], Value = []\<rparr>"

text \<open>What a scenario observes of \<open>Match\<close>: the type, the route path and the parameters.\<close>

definition outcome ::
  "(panic + (RouteMatch \<times> PathParams)) option \<Rightarrow> (RouteMatchType \<times> string \<times> (string \<times> string) list) option" where
  "outcome x =
     (case x of
        Some (Inr (res, ps)) \<Rightarrow> Some (Type res, RoutePath res, map (\<lambda>p. (Name p, Value p)) ps)
      | _ \<Rightarrow> None)"

definition allowOverwriting :: RouterConfig where
  "allowOverwriting = noConfig\<lparr>AllowOverwritingRoute := True\<rparr>"

text \<open>A route as above whose handler is nil.\<close>

definition withoutHandler :: "Routable \<Rightarrow> Routable" where
  "withoutHandler rb = rb\<lparr>ToRoute := (ToRoute rb)\<lparr>Route_Handler := None\<rparr>\<rparr>"

definition matchedHandler :: "(panic + (RouteMatch \<times> PathParams)) option \<Rightarrow> HandlerFunc option" where
  "matchedHandler x = (case x of Some (Inr (res, ps)) \<Rightarrow> Some (Handler res) | _ \<Rightarrow> None)"

section \<open>Properties\<close>

subsection \<open>Registration never panics on a router with a tree\<close>

lemma set_rm_Some: "set_rm m meth (Some rm) \<noteq> Inl e"
  by (simp add: set_rm_def)

lemma attachHandler_ok: "attachHandler n meth ri \<noteq> Inl e"
  by (simp add: attachHandler_def setHandler_def Let_def set_rm_Some split: sum.splits)

lemma insert_at_root_ok: "s \<noteq> [] \<Longrightarrow> insert_at_root t s meth ri c ns \<noteq> Inl e"
  by (simp add: insert_at_root_def Let_def attachHandler_ok split: sum.splits)

lemma insert_existing_ok: "insert_existing meth ri c ns \<noteq> Inl e"
  by (simp add: insert_existing_def attachHandler_ok split: sum.splits)

lemma insert_child_ok: "insert_child t s meth ri c ns \<noteq> Inl e"
  by (simp add: insert_child_def Let_def attachHandler_ok split: sum.splits)

lemma insert_split_ok: "insert_split t s lcp meth ri c ns \<noteq> Inl e"
  by (simp add: insert_split_def Let_def attachHandler_ok split: sum.splits)

lemma insert_node_ok: "s \<noteq> [] \<Longrightarrow> insert_node t s meth ri c ns \<noteq> Inl e"
proof (induction t s meth ri c ns rule: insert_node.induct)
  case (1 t s meth ri c ns)
  show ?case
  proof (cases "lcpLen s (prefix (ns ! c)) = 0")
    case True
    with "1.prems" show ?thesis
      by (subst insert_node.simps) (simp add: insert_at_root_ok)
  next
    case nz: False
    show ?thesis
    proof (cases "lcpLen s (prefix (ns ! c)) < length (prefix (ns ! c))")
      case True
      with nz show ?thesis
        by (subst insert_node.simps) (simp add: insert_split_ok)
    next
      case nsplit: False
      show ?thesis
      proof (cases "lcpLen s (prefix (ns ! c)) < length s")
        case False
        with nz nsplit show ?thesis
          by (subst insert_node.simps) (simp add: insert_existing_ok)
      next
        case deeper: True
        then have rest: "drop (lcpLen s (prefix (ns ! c))) s \<noteq> []"
          by simp
        show ?thesis
        proof (cases "findChildWithLabel ns (ns ! c) (drop (lcpLen s (prefix (ns ! c))) s ! 0)")
          case None
          with nz nsplit deeper show ?thesis
            by (subst insert_node.simps) (simp add: insert_child_ok)
        next
          case (Some c')
          have "insert_node t (drop (lcpLen s (prefix (ns ! c))) s) meth ri c' ns \<noteq> Inl e"
            using "1.IH" [OF refl nz nsplit deeper Some rest] .
          with nz nsplit deeper Some show ?thesis
            by (subst insert_node.simps) simp
        qed
      qed
    qed
  qed
qed

lemma normalizePath_slash: "normalizePath p \<noteq> [] \<and> normalizePath p ! 0 = CHR ''/''"
  by (simp add: normalizePath_def Let_def)

lemma insert_node_Inr:
  "s \<noteq> [] \<Longrightarrow> \<exists>ns'. insert_node t s meth ri c ns = Inr ns'"
  using insert_node_ok [of s t meth ri c ns] by (cases "insert_node t s meth ri c ns") auto

lemma add_scan_result:
  "pth \<noteq> [] \<Longrightarrow> pth ! 0 = CHR ''/'' \<Longrightarrow>
   \<exists>w p' n' ns'. add_scan mk meth root i pth names ns = Inr (w, p', n', ns') \<and> p' \<noteq> []"
proof (induction mk meth root i pth names ns rule: add_scan.induct)
  case (1 mk meth root i pth names ns)
  note ne = "1.prems"(1) and sl = "1.prems"(2)
  show ?case
  proof (cases "i < length pth")
    case False
    then have "add_scan mk meth root i pth names ns = Inr (False, pth, names, ns)"
      by (subst add_scan.simps) simp
    with ne show ?thesis by blast
  next
    case lt: True
    show ?thesis
    proof (cases "pth ! i = paramLabel")
      case isparam: True
      with sl have ipos: "0 < i"
        by (cases i) auto
      show ?thesis
      proof (cases "pth ! (i - 1) = CHR 0x5C")
        case True
        have "\<exists>w p' n' ns'. add_scan mk meth root (i + 1) pth names ns = Inr (w, p', n', ns') \<and> p' \<noteq> []"
          using "1.IH"(1) [OF lt isparam _ ne sl] ipos True by simp
        with lt isparam ipos True show ?thesis by (subst add_scan.simps) simp
      next
        case noesc: False
        let ?i2 = "i + length (takeWhile (\<lambda>ch. ch \<noteq> CHR ''/'') (drop i pth))"
        let ?pth' = "take (i + 1) pth @ drop ?i2 pth"
        let ?names' = "names @ [take (?i2 - (i + 1)) (drop (i + 1) pth)]"
        have p'ne: "?pth' \<noteq> []" and p'sl: "?pth' ! 0 = CHR ''/''"
          using ne sl lt by (auto simp: nth_append)
        have t1: "take i pth \<noteq> []" and t2: "take (i + 1) ?pth' \<noteq> []"
          using ipos ne by auto
        obtain ns1 where s1: "insert_node staticKind (take i pth) meth (intermediate meth) root ns = Inr ns1"
          using insert_node_Inr [OF t1] by blast
        show ?thesis
        proof (cases "i + 1 = length ?pth'")
          case True
          obtain ns2 where s2: "insert_node paramKind (take (i + 1) ?pth') meth (mk ?names') root ns1 = Inr ns2"
            using insert_node_Inr [OF t2] by blast
          have "add_scan mk meth root i pth names ns = Inr (True, ?pth', ?names', ns2)"
            apply (subst add_scan.simps)
            using lt isparam noesc s1 s2 True
            apply (simp only: Let_def if_True if_False sum.case simp_thms)
            done
          with p'ne show ?thesis by blast
        next
          case False
          obtain ns2 where s2: "insert_node paramKind (take (i + 1) ?pth') meth (intermediate meth) root ns1 = Inr ns2"
            using insert_node_Inr [OF t2] by blast
          have rec: "\<exists>w p' n' ns'. add_scan mk meth root (i + 1 + 1) ?pth' ?names' ns2 = Inr (w, p', n', ns') \<and> p' \<noteq> []"
            using "1.IH"(2) [OF lt isparam _ s1 refl refl refl refl False s2 p'ne p'sl] noesc by simp
          have "add_scan mk meth root i pth names ns = add_scan mk meth root (i + 1 + 1) ?pth' ?names' ns2"
            apply (subst add_scan.simps)
            using lt isparam noesc s1 s2 False
            apply (simp only: Let_def if_True if_False sum.case simp_thms)
            done
          with rec show ?thesis by simp
        qed
      qed
    next
      case notparam: False
      show ?thesis
      proof (cases "pth ! i = anyLabel")
        case True
        with sl have ipos: "0 < i"
          by (cases i) auto
        have t1: "take i pth \<noteq> []" and t2: "take (i + 1) pth \<noteq> []"
          using ipos ne by auto
        obtain ns1 where s1: "insert_node staticKind (take i pth) meth (intermediate meth) root ns = Inr ns1"
          using insert_node_Inr [OF t1] by blast
        obtain ns2 where s2: "insert_node anyKind (take (i + 1) pth) meth (mk (names @ [''*''])) root ns1 = Inr ns2"
          using insert_node_Inr [OF t2] by blast
        have "add_scan mk meth root i pth names ns = Inr (True, pth, names @ [''*''], ns2)"
          apply (subst add_scan.simps)
          using lt notparam True s1 s2
          apply (simp only: Let_def if_True if_False sum.case simp_thms)
          done
        with ne show ?thesis by blast
      next
        case False
        have "\<exists>w p' n' ns'. add_scan mk meth root (i + 1) pth names ns = Inr (w, p', n', ns') \<and> p' \<noteq> []"
          using "1.IH"(3) [OF lt notparam False ne sl] .
        with lt notparam False show ?thesis by (subst add_scan.simps) simp
      qed
    qed
  qed
qed

lemma Add_registers:
  assumes h: "Route_Handler (ToRoute rb) \<noteq> None"
    and dup: "allowOverwritingRoute r \<or>
      \<not> list_ex (\<lambda>rr. Route_Method (ToRoute rb) = rmethod rr \<and> Route_Path (ToRoute rb) = path rr) (routes r)"
    and t: "tree r = Some root"
  shows "\<exists>names ns'. Add r rb =
           Inr (Inr (ToRouteInfo rb names),
                r\<lparr>nodes := ns', routes := storeRouteInfo (routes r) (ToRouteInfo rb names)\<rparr>)"
proof -
  let ?pth = "normalizePath (Route_Path (ToRoute rb))"
  let ?meth = "Route_Method (ToRoute rb)"
  let ?mk = "\<lambda>names. \<lparr>rmethod = ?meth, path = ?pth, params = names,
      name = Route_Name (ToRoute rb),
      handler = Some (applyMiddleware (the (Route_Handler (ToRoute rb))) (Route_Middlewares (ToRoute rb))),
      orgRouteInfo = Some (ToRouteInfo rb names)\<rparr>"
  have sl: "?pth \<noteq> []" "?pth ! 0 = CHR ''/''"
    using normalizePath_slash by auto
  obtain wasAdded pth' names ns where
    scan: "add_scan ?mk ?meth root 0 ?pth [] (nodes r) = Inr (wasAdded, pth', names, ns)"
    and pth': "pth' \<noteq> []"
    using add_scan_result [OF sl] by blast
  obtain ns' where fin: "(if wasAdded then Inr ns else insert_node staticKind pth' ?meth (?mk names) root ns) = Inr ns'"
  proof (cases wasAdded)
    case True
    then show ?thesis using that by simp
  next
    case False
    obtain ns2 where "insert_node staticKind pth' ?meth (?mk names) root ns = Inr ns2"
      using insert_node_Inr [OF pth'] by blast
    with False show ?thesis using that by simp
  qed
  have "Add r rb = Inr (Inr (ToRouteInfo rb names),
                r\<lparr>nodes := ns', routes := storeRouteInfo (routes r) (ToRouteInfo rb names)\<rparr>)"
    unfolding Add_def Let_def
    using h dup t scan fin
    by (auto simp only: if_True if_False simp_thms option.case sum.case prod.case)
  then show ?thesis by blast
qed

lemma storeRouteInfo_replaces:
  "k < length rs \<Longrightarrow> rmethod ri = rmethod (rs ! k) \<and> path ri = path (rs ! k) \<Longrightarrow>
   \<forall>j<k. \<not> (rmethod ri = rmethod (rs ! j) \<and> path ri = path (rs ! j)) \<Longrightarrow>
   storeRouteInfo rs ri = rs[k := ri]"
proof (induction rs arbitrary: k)
  case Nil
  then show ?case by simp
next
  case (Cons rr rs)
  show ?case
  proof (cases k)
    case 0
    with Cons.prems show ?thesis by simp
  next
    case (Suc k')
    with Cons.prems have "\<not> (rmethod ri = rmethod rr \<and> path ri = path rr)"
      by auto
    moreover have "storeRouteInfo rs ri = rs[k' := ri]"
      using Cons.prems Suc by (intro Cons.IH) auto
    ultimately show ?thesis using Suc by auto
  qed
qed

lemma fst_result:
  "map_option (map_sum id fst) x = Some (Inr e) \<Longrightarrow> \<exists>r. x = Some (Inr (e, r))"
proof (cases x)
  case None
  then show "map_option (map_sum id fst) x = Some (Inr e) \<Longrightarrow> ?thesis" by simp
next
  case (Some y)
  then show "map_option (map_sum id fst) x = Some (Inr e) \<Longrightarrow> ?thesis"
    by (cases y) auto
qed

subsection \<open>Registration errors and overwriting\<close>

text \<open>
  C6. \<open>Add\<close> returns the missing-handler error when the route's handler is nil. With a
  handler, it returns the duplicate-route error when the registry holds an entry of the
  route's method and path and \<open>allowOverwritingRoute\<close> is false. With a handler and
  \<open>allowOverwritingRoute\<close> true, on a router that has its tree, registering a method and
  path that the registry holds (first at index \<open>k\<close>) succeeds, and the registry afterwards
  is the old one with entry \<open>k\<close> replaced by the new \<open>RouteInfo\<close>: nothing is appended.
  The \<open>Routable\<close> is an interface; its \<open>ToRouteInfo\<close> is taken to report the method and
  path of its own \<open>ToRoute\<close>. In both error cases the router is left as it was.
\<close>

theorem Add_errors_and_overwriting:
  "(Route_Handler (ToRoute rb) = None \<longrightarrow>
      Add r rb = Inr (Inl (AddRouteError (Route_Method (ToRoute rb)) (Route_Path (ToRoute rb))
                        ''adding route without handler function''), r)) \<and>
   (Route_Handler (ToRoute rb) \<noteq> None \<and> \<not> allowOverwritingRoute r \<and> k < length (routes r) \<and>
    rmethod (routes r ! k) = Route_Method (ToRoute rb) \<and>
    path (routes r ! k) = Route_Path (ToRoute rb) \<longrightarrow>
      Add r rb = Inr (Inl (AddRouteError (Route_Method (ToRoute rb)) (Route_Path (ToRoute rb))
                        ''adding duplicate route (same method+path) is not allowed''), r)) \<and>
   (Route_Handler (ToRoute rb) \<noteq> None \<and> allowOverwritingRoute r \<and> tree r \<noteq> None \<and>
    (\<forall>ps. rmethod (ToRouteInfo rb ps) = Route_Method (ToRoute rb) \<and>
          path (ToRouteInfo rb ps) = Route_Path (ToRoute rb)) \<and>
    k < length (routes r) \<and>
    rmethod (routes r ! k) = Route_Method (ToRoute rb) \<and>
    path (routes r ! k) = Route_Path (ToRoute rb) \<and>
    (\<forall>j<k. rmethod (routes r ! j) \<noteq> Route_Method (ToRoute rb) \<or>
           path (routes r ! j) \<noteq> Route_Path (ToRoute rb)) \<longrightarrow>
      (\<exists>names ns'. Add r rb =
          Inr (Inr (ToRouteInfo rb names),
               r\<lparr>nodes := ns', routes := (routes r)[k := ToRouteInfo rb names]\<rparr>)))"
proof (intro conjI impI)
  assume "Route_Handler (ToRoute rb) = None"
  then show "Add r rb = Inr (Inl (AddRouteError (Route_Method (ToRoute rb)) (Route_Path (ToRoute rb))
                        ''adding route without handler function''), r)"
    by (simp add: Add_def Let_def)
next
  assume a: "Route_Handler (ToRoute rb) \<noteq> None \<and> \<not> allowOverwritingRoute r \<and> k < length (routes r) \<and>
    rmethod (routes r ! k) = Route_Method (ToRoute rb) \<and>
    path (routes r ! k) = Route_Path (ToRoute rb)"
  then have "routes r ! k \<in> set (routes r)"
    by simp
  with a have "list_ex (\<lambda>rr. Route_Method (ToRoute rb) = rmethod rr \<and> Route_Path (ToRoute rb) = path rr) (routes r)"
    unfolding list_ex_iff by metis
  with a show "Add r rb = Inr (Inl (AddRouteError (Route_Method (ToRoute rb)) (Route_Path (ToRoute rb))
                        ''adding duplicate route (same method+path) is not allowed''), r)"
    by (simp add: Add_def Let_def)
next
  assume a: "Route_Handler (ToRoute rb) \<noteq> None \<and> allowOverwritingRoute r \<and> tree r \<noteq> None \<and>
    (\<forall>ps. rmethod (ToRouteInfo rb ps) = Route_Method (ToRoute rb) \<and>
          path (ToRouteInfo rb ps) = Route_Path (ToRoute rb)) \<and>
    k < length (routes r) \<and>
    rmethod (routes r ! k) = Route_Method (ToRoute rb) \<and>
    path (routes r ! k) = Route_Path (ToRoute rb) \<and>
    (\<forall>j<k. rmethod (routes r ! j) \<noteq> Route_Method (ToRoute rb) \<or>
           path (routes r ! j) \<noteq> Route_Path (ToRoute rb))"
  then obtain root where root: "tree r = Some root"
    by auto
  obtain names ns' where add: "Add r rb =
           Inr (Inr (ToRouteInfo rb names),
                r\<lparr>nodes := ns', routes := storeRouteInfo (routes r) (ToRouteInfo rb names)\<rparr>)"
    using Add_registers [OF _ _ root, of rb] a by blast
  have "storeRouteInfo (routes r) (ToRouteInfo rb names) = (routes r)[k := ToRouteInfo rb names]"
    using a by (intro storeRouteInfo_replaces) auto
  with add show "\<exists>names ns'. Add r rb =
          Inr (Inr (ToRouteInfo rb names),
               r\<lparr>nodes := ns', routes := (routes r)[k := ToRouteInfo rb names]\<rparr>)"
    by auto
qed

theorem Add_errors_and_overwriting_witness:
  "Add (NewRouter noConfig) (withoutHandler (routable ''GET'' ''/users'' 1)) =
     Inr (Inl (AddRouteError ''GET'' ''/users'' ''adding route without handler function''),
          NewRouter noConfig) \<and>
   Add (routerOf noConfig [routable ''GET'' ''/users'' 1]) (routable ''GET'' ''/users'' 2) =
     Inr (Inl (AddRouteError ''GET'' ''/users''
                 ''adding duplicate route (same method+path) is not allowed''),
          routerOf noConfig [routable ''GET'' ''/users'' 1]) \<and>
   (\<exists>names ns'.
      Add (routerOf allowOverwriting [routable ''GET'' ''/x'' 1, routable ''GET'' ''/users'' 2])
          (routable ''GET'' ''/users'' 3) =
        Inr (Inr (ToRouteInfo (routable ''GET'' ''/users'' 3) names),
             (routerOf allowOverwriting [routable ''GET'' ''/x'' 1, routable ''GET'' ''/users'' 2])
               \<lparr>nodes := ns',
                routes := [\<lparr>rmethod = ''GET'', path = ''/x'', params = [], name = []\<rparr>,
                           ToRouteInfo (routable ''GET'' ''/users'' 3) names]\<rparr>)) \<and>
   matchedHandler (Match (routerOf allowOverwriting
        [routable ''GET'' ''/x'' 1, routable ''GET'' ''/users'' 2, routable ''GET'' ''/users'' 3])
      (request ''GET'' ''/users'') (blankParams 0)) = Some (UserHandler 3)"
proof -
  let ?r1 = "routerOf noConfig [routable ''GET'' ''/users'' 1]"
  let ?r2 = "routerOf allowOverwriting [routable ''GET'' ''/x'' 1, routable ''GET'' ''/users'' 2]"
  have a: "Add (NewRouter noConfig) (withoutHandler (routable ''GET'' ''/users'' 1)) =
     Inr (Inl (AddRouteError ''GET'' ''/users'' ''adding route without handler function''),
          NewRouter noConfig)"
    using Add_errors_and_overwriting [THEN conjunct1, of "withoutHandler (routable ''GET'' ''/users'' 1)" "NewRouter noConfig"]
    by (simp add: withoutHandler_def routable_def)
  have r1: "routes ?r1 = [\<lparr>rmethod = ''GET'', path = ''/users'', params = [], name = []\<rparr>]"
    "\<not> allowOverwritingRoute ?r1"
    by code_simp+
  have b: "Add ?r1 (routable ''GET'' ''/users'' 2) =
     Inr (Inl (AddRouteError ''GET'' ''/users''
                 ''adding duplicate route (same method+path) is not allowed''), ?r1)"
    using Add_errors_and_overwriting [THEN conjunct2, THEN conjunct1, of "routable ''GET'' ''/users'' 2" ?r1 0] r1
    by (simp add: routable_def)
  have r2: "routes ?r2 = [\<lparr>rmethod = ''GET'', path = ''/x'', params = [], name = []\<rparr>,
                          \<lparr>rmethod = ''GET'', path = ''/users'', params = [], name = []\<rparr>]"
    "allowOverwritingRoute ?r2" "tree ?r2 = Some 0"
    by code_simp+
  have c: "\<exists>names ns'.
      Add ?r2 (routable ''GET'' ''/users'' 3) =
        Inr (Inr (ToRouteInfo (routable ''GET'' ''/users'' 3) names),
             ?r2\<lparr>nodes := ns', routes := (routes ?r2)[1 := ToRouteInfo (routable ''GET'' ''/users'' 3) names]\<rparr>)"
    using Add_errors_and_overwriting [THEN conjunct2, THEN conjunct2, of "routable ''GET'' ''/users'' 3" ?r2 1] r2
    by (simp add: routable_def)
  have d: "matchedHandler (Match (routerOf allowOverwriting
        [routable ''GET'' ''/x'' 1, routable ''GET'' ''/users'' 2, routable ''GET'' ''/users'' 3])
      (request ''GET'' ''/users'') (blankParams 0)) = Some (UserHandler 3)"
    by code_simp
  from a b c d r2 show ?thesis
    by simp
qed

subsection \<open>Removal that fails\<close>

text \<open>
  C10. Whenever \<open>Remove\<close> returns an error, the router after the call (its tree, arena
  and registry) is the router before the call; the error is one of the three messages of
  the source.
\<close>

theorem Remove_error_leaves_router:
  "Remove r meth p = Some (Inr (Some e, r')) \<Longrightarrow>
   r' = r \<and>
   e \<in> {''router has no routes to remove'', ''could not find route to remove by given path'',
        ''could not find route to remove by given path and method''}"
  unfolding Remove_def Let_def
  by (auto split: option.splits if_splits sum.splits)

theorem Remove_error_leaves_router_witness:
  "Remove (NewRouter noConfig) ''GET'' ''/a/:x'' =
     Some (Inr (Some ''router has no routes to remove'', NewRouter noConfig)) \<and>
   Remove (routerOf noConfig [routable ''GET'' ''/a/:x'' 1]) ''GET'' ''/b'' =
     Some (Inr (Some ''could not find route to remove by given path'',
                routerOf noConfig [routable ''GET'' ''/a/:x'' 1])) \<and>
   Remove (routerOf noConfig [routable ''GET'' ''/a/:x'' 1]) ''POST'' ''/a/:x'' =
     Some (Inr (Some ''could not find route to remove by given path and method'',
                routerOf noConfig [routable ''GET'' ''/a/:x'' 1]))"
proof -
  let ?r = "routerOf noConfig [routable ''GET'' ''/a/:x'' 1]"
  have "map_option (map_sum id fst) (Remove (NewRouter noConfig) ''GET'' ''/a/:x'') =
          Some (Inr (Some ''router has no routes to remove''))"
    by code_simp
  then have "\<exists>r1. Remove (NewRouter noConfig) ''GET'' ''/a/:x'' =
      Some (Inr (Some ''router has no routes to remove'', r1))"
    by (rule fst_result)
  then obtain r1 where a: "Remove (NewRouter noConfig) ''GET'' ''/a/:x'' =
      Some (Inr (Some ''router has no routes to remove'', r1))" ..
  have "map_option (map_sum id fst) (Remove ?r ''GET'' ''/b'') =
          Some (Inr (Some ''could not find route to remove by given path''))"
    by code_simp
  then have "\<exists>r2. Remove ?r ''GET'' ''/b'' =
      Some (Inr (Some ''could not find route to remove by given path'', r2))"
    by (rule fst_result)
  then obtain r2 where b: "Remove ?r ''GET'' ''/b'' =
      Some (Inr (Some ''could not find route to remove by given path'', r2))" ..
  have "map_option (map_sum id fst) (Remove ?r ''POST'' ''/a/:x'') =
          Some (Inr (Some ''could not find route to remove by given path and method''))"
    by code_simp
  then have "\<exists>r3. Remove ?r ''POST'' ''/a/:x'' =
      Some (Inr (Some ''could not find route to remove by given path and method'', r3))"
    by (rule fst_result)
  then obtain r3 where c: "Remove ?r ''POST'' ''/a/:x'' =
      Some (Inr (Some ''could not find route to remove by given path and method'', r3))" ..
  have r1: "r1 = NewRouter noConfig"
    using Remove_error_leaves_router [OF a] by (rule conjunct1)
  have r2: "r2 = ?r"
    using Remove_error_leaves_router [OF b] by (rule conjunct1)
  have r3: "r3 = ?r"
    using Remove_error_leaves_router [OF c] by (rule conjunct1)
  from conjI [OF a [unfolded r1] conjI [OF b [unfolded r2] c [unfolded r3]]]
  show ?thesis .
qed

end
